theory Spec2Isabelle
  imports Main "HOL-Library.Word" "HOL-Library.Multiset" "HOL-Library.Product_Lexorder"
begin

unbundle bit_operations_syntax

section \<open>BOLT binary sections (bolt/Core/BinarySection.h)\<close>

text \<open>
  A shallow embedding of the class \<^verbatim>\<open>llvm::bolt::BinarySection\<close>. Unsigned C++ integers
  are words of their width (\<^verbatim>\<open>uint64_t\<close> and \<^verbatim>\<open>size_t\<close> 64 bits, \<^verbatim>\<open>unsigned\<close> and
  \<^verbatim>\<open>uint32_t\<close> 32 bits), so every addition wraps as in the program. A pointer is a
  64-bit word, \<open>0\<close> being \<^verbatim>\<open>nullptr\<close>. A failed \<^verbatim>\<open>assert\<close> and the \<^verbatim>\<open>exit(1)\<close> of
  \<^verbatim>\<open>getContentsOrQuit\<close> are values of the type \<open>Fault\<close>; assertions are taken as
  compiled in, as in a build without \<^verbatim>\<open>NDEBUG\<close>.
\<close>

type_synonym u8 = "8 word"
type_synonym u32 = "32 word"
type_synonym u64 = "64 word"
type_synonym ptr = "64 word"

datatype Fault = AssertionFault | ProcessExit

subsection \<open>Constants of the ELF format\<close>

text \<open>
  The section types and flags the header reads from \<^verbatim>\<open>llvm/BinaryFormat/ELF.h\<close>, which
  is not part of the sources at hand; the values are those of the ELF format. No
  general theorem below depends on the numbers, only the closed examples do.
\<close>

definition SHT_NULL :: u32 where "SHT_NULL = 0"
definition SHT_PROGBITS :: u32 where "SHT_PROGBITS = 1"
definition SHT_RELA :: u32 where "SHT_RELA = 4"
definition SHT_NOTE :: u32 where "SHT_NOTE = 7"
definition SHT_NOBITS :: u32 where "SHT_NOBITS = 8"
definition SHT_RELR :: u32 where "SHT_RELR = 19"

definition SHF_WRITE :: u32 where "SHF_WRITE = 0x1"
definition SHF_ALLOC :: u32 where "SHF_ALLOC = 0x2"
definition SHF_EXECINSTR :: u32 where "SHF_EXECINSTR = 0x4"
definition SHF_TLS :: u32 where "SHF_TLS = 0x400"

subsection \<open>Byte views and memory\<close>

text \<open>
  \<^verbatim>\<open>llvm::StringRef\<close>: a pointer and a length, owning nothing. Memory is a byte at every
  address together with the set of base pointers of the arrays that \<^verbatim>\<open>new[]\<close> has
  handed out and \<^verbatim>\<open>delete[]\<close> has not yet taken back.
\<close>

record StringRef =
  Data :: ptr
  Length :: u64

definition empty_StringRef :: StringRef where
  "empty_StringRef = \<lparr>Data = 0, Length = 0\<rparr>"

text \<open>\<^verbatim>\<open>StringRef(const char *data, size_t length)\<close>.\<close>

definition mk_StringRef :: "ptr \<Rightarrow> u64 \<Rightarrow> StringRef" where
  "mk_StringRef p n = \<lparr>Data = p, Length = n\<rparr>"

record Memory =
  bytes :: "ptr \<Rightarrow> u8"
  owned :: "ptr set"

text \<open>The bytes a view denotes in a memory: \<open>Length\<close> bytes from \<open>Data\<close> on.\<close>

definition view_bytes :: "Memory \<Rightarrow> StringRef \<Rightarrow> u8 list" where
  "view_bytes m v = map (\<lambda>i. bytes m (Data v + of_nat i)) [0 ..< unat (Length v)]"

text \<open>\<^verbatim>\<open>delete[] p\<close> gives the array at \<open>p\<close> back.\<close>

definition delete_array :: "Memory \<Rightarrow> ptr \<Rightarrow> Memory" where
  "delete_array m p = m\<lparr>owned := owned m - {p}\<rparr>"

subsection \<open>Relocation records\<close>

text \<open>
  Modelled from the spec: the struct \<^verbatim>\<open>Relocation\<close> and its comparison operators live in
  \<^verbatim>\<open>bolt/Core/Relocation.h\<close>, which is not part of the sources at hand. The spec gives the
  record as the tuple (offset, target, kind, addend, resolved value), the order in which
  \<^verbatim>\<open>Relocation{Offset, Symbol, Type, Addend, Value}\<close> fills it, and says that ordering and
  lookup key on the offset only, several records being allowed at one offset.
\<close>

record Relocation =
  Offset :: u64
  Symbol :: ptr
  Type :: u32
  Addend :: u64
  Value :: u64

definition Relocation_less :: "Relocation \<Rightarrow> Relocation \<Rightarrow> bool" where
  "Relocation_less A B = (Offset A < Offset B)"

text \<open>Two records are equivalent for the container when neither is less than the other.\<close>

definition Relocation_equiv :: "Relocation \<Rightarrow> Relocation \<Rightarrow> bool" where
  "Relocation_equiv A B = (\<not> Relocation_less A B \<and> \<not> Relocation_less B A)"

subsection \<open>The relocation container\<close>

text \<open>
  \<^verbatim>\<open>std::multiset<Relocation, std::less<>>\<close> is the list of its elements in iteration
  order. \<^verbatim>\<open>emplace\<close> puts the new element at the upper bound of the elements equivalent
  to it, \<^verbatim>\<open>find\<close> yields the position of the first element equivalent to the key (the
  lower bound, as libstdc++ and libc++ implement it) or no position for \<^verbatim>\<open>end()\<close>, and
  \<^verbatim>\<open>erase(iterator)\<close> removes the one element at a position.
\<close>

fun multiset_emplace :: "Relocation \<Rightarrow> Relocation list \<Rightarrow> Relocation list" where
  "multiset_emplace r [] = [r]"
| "multiset_emplace r (x # xs) =
     (if Relocation_less r x then r # x # xs else x # multiset_emplace r xs)"

fun multiset_find :: "Relocation \<Rightarrow> Relocation list \<Rightarrow> nat option" where
  "multiset_find k [] = None"
| "multiset_find k (x # xs) =
     (if Relocation_equiv x k then Some 0 else map_option Suc (multiset_find k xs))"

definition multiset_erase :: "nat \<Rightarrow> Relocation list \<Rightarrow> Relocation list" where
  "multiset_erase i xs = take i xs @ drop (Suc i) xs"

subsection \<open>Collaborators of the section\<close>

text \<open>
  \<^verbatim>\<open>BinarySection::isELF()\<close> and \<^verbatim>\<open>isMachO()\<close> are only declared in the header; they ask
  the owning \<^verbatim>\<open>BinaryContext\<close>, whose answers are the two fields here.
\<close>

record BinaryContext =
  ctxIsELF :: bool
  ctxIsMachO :: bool

text \<open>
  \<^verbatim>\<open>llvm::object::SectionRef\<close> is a handle into the input object file. The record holds
  what the calls made on it in this header return: \<open>refContents\<close> is \<open>None\<close> when
  \<^verbatim>\<open>getContents()\<close> returns an error. The default-constructed \<^verbatim>\<open>SectionRef()\<close> of a
  section without input counterpart is \<open>None\<close> in the field \<open>Section\<close> below.
\<close>

record SectionRef =
  refName :: string
  refObjectIsELF :: bool
  refType :: u32
  refFlags :: u64
  refOffset :: u64
  refMachOOffset :: u32
  refContents :: "StringRef option"
  refAddress :: u64
  refSize :: u64
  refAlignment :: u64
  refIsText :: bool
  refIsData :: bool

record BinaryPatch =
  PatchOffset :: u64
  Bytes :: "u8 list"

subsection \<open>The section\<close>

record BinarySection =
  BC :: BinaryContext
  Name :: string
  Section :: "SectionRef option"
  Contents :: StringRef
  Address :: u64
  Size :: u64
  InputFileOffset :: u64
  Alignment :: u32
  ELFType :: u32
  ELFFlags :: u32
  IsRelro :: bool
  Relocations :: "Relocation list"
  DynamicRelocations :: "Relocation list"
  PendingRelocations :: "Relocation list"
  Patches :: "BinaryPatch list"
  Patcher :: ptr
  IsFinalized :: bool
  OutputName :: string
  OutputAddress :: u64
  OutputSize :: u64
  OutputFileOffset :: u64
  OutputContents :: StringRef
  SectionNumber :: u64
  SectionID :: string
  Index :: u32
  IsReordered :: bool
  IsAnonymous :: bool
  IsLinkOnly :: bool

subsection \<open>Basic property access\<close>

definition isELF :: "BinarySection \<Rightarrow> bool" where
  "isELF s = ctxIsELF (BC s)"

definition isMachO :: "BinarySection \<Rightarrow> bool" where
  "isMachO s = ctxIsMachO (BC s)"

definition getAddress :: "BinarySection \<Rightarrow> u64" where
  "getAddress s = Address s"

definition getSize :: "BinarySection \<Rightarrow> u64" where
  "getSize s = Size s"

definition getEndAddress :: "BinarySection \<Rightarrow> u64" where
  "getEndAddress s = Address s + Size s"

text \<open>\<^verbatim>\<open>getAlignment\<close> returns the \<^verbatim>\<open>unsigned\<close> field as a \<^verbatim>\<open>uint64_t\<close>.\<close>

definition getAlignment :: "BinarySection \<Rightarrow> u64" where
  "getAlignment s = ucast (Alignment s)"

definition getELFType :: "BinarySection \<Rightarrow> u32" where
  "getELFType s = ELFType s"

definition getELFFlags :: "BinarySection \<Rightarrow> u32" where
  "getELFFlags s = ELFFlags s"

definition getContents :: "BinarySection \<Rightarrow> StringRef" where
  "getContents s = Contents s"

definition getData :: "BinarySection \<Rightarrow> ptr" where
  "getData s = Data (getContents s)"

definition hasSectionRef :: "BinarySection \<Rightarrow> bool" where
  "hasSectionRef s = (Section s \<noteq> None)"

text \<open>A flag test \<^verbatim>\<open>(ELFFlags & M)\<close> used as a \<^verbatim>\<open>bool\<close> is true when some bit remains.\<close>

definition isText :: "BinarySection \<Rightarrow> bool" where
  "isText s =
     (if isELF s then ELFFlags s AND SHF_EXECINSTR \<noteq> 0
      else (case Section s of None \<Rightarrow> False | Some r \<Rightarrow> refIsText r))"

definition isData :: "BinarySection \<Rightarrow> bool" where
  "isData s =
     (if isELF s then ELFType s = SHT_PROGBITS \<and> ELFFlags s AND (SHF_ALLOC OR SHF_WRITE) \<noteq> 0
      else (case Section s of None \<Rightarrow> False | Some r \<Rightarrow> refIsData r))"

definition isBSS :: "BinarySection \<Rightarrow> bool" where
  "isBSS s = (ELFType s = SHT_NOBITS \<and> ELFFlags s AND (SHF_ALLOC OR SHF_WRITE) \<noteq> 0)"

definition isTLS :: "BinarySection \<Rightarrow> bool" where
  "isTLS s = (ELFFlags s AND SHF_TLS \<noteq> 0)"

definition isTBSS :: "BinarySection \<Rightarrow> bool" where
  "isTBSS s = (isBSS s \<and> isTLS s)"

definition isWritable :: "BinarySection \<Rightarrow> bool" where
  "isWritable s = (ELFFlags s AND SHF_WRITE \<noteq> 0)"

definition isAllocatable :: "BinarySection \<Rightarrow> bool" where
  "isAllocatable s =
     (if isELF s then ELFFlags s AND SHF_ALLOC \<noteq> 0 \<and> \<not> isTBSS s
      else True)"

subsection \<open>Equality and order (operator==, operator<)\<close>

definition section_eq :: "BinarySection \<Rightarrow> BinarySection \<Rightarrow> bool" where
  "section_eq s Other =
     (Name s = Name Other \<and> Address s = Address Other \<and>
      Size s = Size Other \<and> getData s = getData Other \<and>
      Alignment s = Alignment Other \<and> ELFType s = ELFType Other \<and>
      ELFFlags s = ELFFlags Other)"

text \<open>On \<^verbatim>\<open>bool\<close>, \<^verbatim>\<open>a > b\<close> is \<open>a \<and> \<not> b\<close> and \<^verbatim>\<open>a < b\<close> is \<open>\<not> a \<and> b\<close>.\<close>

definition section_less :: "BinarySection \<Rightarrow> BinarySection \<Rightarrow> bool" where
  "section_less s Other =
     (if isAllocatable s \<noteq> isAllocatable Other
        then isAllocatable s \<and> \<not> isAllocatable Other
      else if hasSectionRef s \<noteq> hasSectionRef Other
        then hasSectionRef s \<and> \<not> hasSectionRef Other
      else if hasSectionRef s \<and> getAddress s \<noteq> getAddress Other
        then getAddress s < getAddress Other
      else if hasSectionRef s \<and> getAddress s \<noteq> 0 \<and> getSize s \<noteq> getSize Other
        then getSize s < getSize Other
      else if isText s \<noteq> isText Other
        then isText s \<and> \<not> isText Other
      else if isWritable s \<noteq> isWritable Other
        then \<not> isWritable s \<and> isWritable Other
      else if isBSS s \<noteq> isBSS Other
        then \<not> isBSS s \<and> isBSS Other
      else SectionNumber s < SectionNumber Other)"

subsection \<open>Address queries\<close>

definition containsAddress :: "BinarySection \<Rightarrow> u64 \<Rightarrow> bool" where
  "containsAddress s A =
     ((getAddress s \<le> A \<and> A < getEndAddress s) \<or>
      (getSize s = 0 \<and> getAddress s = A))"

definition containsRange :: "BinarySection \<Rightarrow> u64 \<Rightarrow> u64 \<Rightarrow> bool" where
  "containsRange s A Sz = (containsAddress s A \<and> A + Sz \<le> getEndAddress s)"

subsection \<open>Relocations of a section\<close>

text \<open>
  \<^verbatim>\<open>addRelocation\<close> and \<^verbatim>\<open>addDynamicRelocation\<close> assert that the offset lies within the
  section; \<^verbatim>\<open>addPendingRelocation\<close> appends to a vector and asserts nothing.
\<close>

definition addRelocation ::
  "BinarySection \<Rightarrow> u64 \<Rightarrow> ptr \<Rightarrow> u32 \<Rightarrow> u64 \<Rightarrow> u64 \<Rightarrow> Fault + BinarySection" where
  "addRelocation s anOffset aSymbol aType anAddend aValue =
     (if \<not> anOffset < getSize s then Inl AssertionFault
      else Inr (s\<lparr>Relocations :=
        multiset_emplace
          \<lparr>Offset = anOffset, Symbol = aSymbol, Type = aType, Addend = anAddend, Value = aValue\<rparr>
          (Relocations s)\<rparr>))"

definition addDynamicRelocationRec :: "BinarySection \<Rightarrow> Relocation \<Rightarrow> Fault + BinarySection" where
  "addDynamicRelocationRec s Reloc =
     (if \<not> Offset Reloc < getSize s then Inl AssertionFault
      else Inr (s\<lparr>DynamicRelocations := multiset_emplace Reloc (DynamicRelocations s)\<rparr>))"

definition addDynamicRelocation ::
  "BinarySection \<Rightarrow> u64 \<Rightarrow> ptr \<Rightarrow> u32 \<Rightarrow> u64 \<Rightarrow> u64 \<Rightarrow> Fault + BinarySection" where
  "addDynamicRelocation s anOffset aSymbol aType anAddend aValue =
     addDynamicRelocationRec s
       \<lparr>Offset = anOffset, Symbol = aSymbol, Type = aType, Addend = anAddend, Value = aValue\<rparr>"

definition addPendingRelocation :: "BinarySection \<Rightarrow> Relocation \<Rightarrow> BinarySection" where
  "addPendingRelocation s Rel = s\<lparr>PendingRelocations := PendingRelocations s @ [Rel]\<rparr>"

text \<open>The key that both lookups in the dynamic store build from the offset.\<close>

definition offset_key :: "u64 \<Rightarrow> Relocation" where
  "offset_key anOffset = \<lparr>Offset = anOffset, Symbol = 0, Type = 0, Addend = 0, Value = 0\<rparr>"

text \<open>\<^verbatim>\<open>getDynamicRelocationAt\<close> returns a pointer to the record found, or \<^verbatim>\<open>nullptr\<close>.\<close>

definition getDynamicRelocationAt :: "BinarySection \<Rightarrow> u64 \<Rightarrow> Relocation option" where
  "getDynamicRelocationAt s anOffset =
     (case multiset_find (offset_key anOffset) (DynamicRelocations s) of
        None \<Rightarrow> None
      | Some i \<Rightarrow> Some (DynamicRelocations s ! i))"

definition takeDynamicRelocationAt ::
  "BinarySection \<Rightarrow> u64 \<Rightarrow> Relocation option \<times> BinarySection" where
  "takeDynamicRelocationAt s anOffset =
     (case multiset_find (offset_key anOffset) (DynamicRelocations s) of
        None \<Rightarrow> (None, s)
      | Some i \<Rightarrow>
          (Some (DynamicRelocations s ! i),
           s\<lparr>DynamicRelocations := multiset_erase i (DynamicRelocations s)\<rparr>))"

subsection \<open>Output data\<close>

definition isFinalized :: "BinarySection \<Rightarrow> bool" where
  "isFinalized s = IsFinalized s"

definition getOutputSize :: "BinarySection \<Rightarrow> u64" where
  "getOutputSize s = OutputSize s"

definition getOutputContents :: "BinarySection \<Rightarrow> StringRef" where
  "getOutputContents s = OutputContents s"

definition getOutputData :: "BinarySection \<Rightarrow> ptr" where
  "getOutputData s = Data (getOutputContents s)"

definition hasValidSectionID :: "BinarySection \<Rightarrow> bool" where
  "hasValidSectionID s = (SectionID s \<noteq> [])"

definition getSectionID :: "BinarySection \<Rightarrow> Fault + string" where
  "getSectionID s = (if \<not> hasValidSectionID s then Inl AssertionFault else Inr (SectionID s))"

definition setSectionID :: "BinarySection \<Rightarrow> string \<Rightarrow> Fault + BinarySection" where
  "setSectionID s ID =
     (if \<not> \<not> hasValidSectionID s then Inl AssertionFault else Inr (s\<lparr>SectionID := ID\<rparr>))"

text \<open>
  \<^verbatim>\<open>getContentsOrQuit\<close>: nothing for an ELF section of type \<^verbatim>\<open>SHT_NOBITS\<close>, else the
  contents the object file gives, and \<^verbatim>\<open>exit(1)\<close> when it gives an error.
\<close>

definition getContentsOrQuit :: "SectionRef \<Rightarrow> Fault + StringRef" where
  "getContentsOrQuit r =
     (if refObjectIsELF r \<and> refType r = SHT_NOBITS then Inr empty_StringRef
      else (case refContents r of None \<Rightarrow> Inl ProcessExit | Some c \<Rightarrow> Inr c))"

text \<open>
  The condition under which \<^verbatim>\<open>updateContents\<close> releases the old output buffer, with the
  short-circuit evaluation of the program: the input contents are read again only for a
  section that has output data, no section id and an input counterpart.
\<close>

definition releases_old_buffer :: "BinarySection \<Rightarrow> Fault + bool" where
  "releases_old_buffer s =
     (if getOutputData s \<noteq> 0 \<and> \<not> hasValidSectionID s then
        (case Section s of
           None \<Rightarrow> Inr True
         | Some r \<Rightarrow>
             (case getContentsOrQuit r of
                Inl f \<Rightarrow> Inl f
              | Inr c \<Rightarrow> Inr (Data (OutputContents s) \<noteq> Data c)))
      else Inr False)"

definition updateContents ::
  "Memory \<Rightarrow> BinarySection \<Rightarrow> ptr \<Rightarrow> u64 \<Rightarrow> Fault + (BinarySection \<times> Memory)" where
  "updateContents m s NewData NewSize =
     (case releases_old_buffer s of
        Inl f \<Rightarrow> Inl f
      | Inr release \<Rightarrow>
          Inr (s\<lparr>OutputContents := mk_StringRef NewData (if NewData \<noteq> 0 then NewSize else 0),
                 OutputSize := NewSize,
                 IsFinalized := True\<rparr>,
               if release then delete_array m (getOutputData s) else m))"

definition addPadding :: "BinarySection \<Rightarrow> u64 \<Rightarrow> BinarySection" where
  "addPadding s PaddingSize = s\<lparr>OutputSize := OutputSize s + PaddingSize\<rparr>"

subsection \<open>Construction\<close>

text \<open>
  The static counter \<^verbatim>\<open>Count\<close> is passed in and handed back: \<^verbatim>\<open>++Count\<close> stores and
  yields \<open>Count + 1\<close>. Members without initializer take their default member value.
\<close>

text \<open>Copy a section under a new name.\<close>

definition copy_section ::
  "BinaryContext \<Rightarrow> u64 \<Rightarrow> string \<Rightarrow> BinarySection \<Rightarrow> BinarySection \<times> u64" where
  "copy_section ctx Count aName src =
     (\<lparr>BC = ctx, Name = aName, Section = None,
       Contents = getContents src, Address = getAddress src,
       Size = getSize src, InputFileOffset = 0,
       Alignment = ucast (getAlignment src),
       ELFType = getELFType src, ELFFlags = getELFFlags src,
       IsRelro = False,
       Relocations = Relocations src, DynamicRelocations = [],
       PendingRelocations = PendingRelocations src,
       Patches = [], Patcher = 0,
       IsFinalized = False, OutputName = aName, OutputAddress = 0,
       OutputSize = 0, OutputFileOffset = 0, OutputContents = empty_StringRef,
       SectionNumber = Count + 1, SectionID = [], Index = 0,
       IsReordered = False, IsAnonymous = False, IsLinkOnly = False\<rparr>,
      Count + 1)"

text \<open>
  A section of the input file. Outside ELF the members \<^verbatim>\<open>ELFType\<close> and \<^verbatim>\<open>ELFFlags\<close> are
  never written by this constructor; \<open>junkType\<close> and \<open>junkFlags\<close> stand for what they
  then hold.
\<close>

definition input_section ::
  "BinaryContext \<Rightarrow> u64 \<Rightarrow> SectionRef \<Rightarrow> u32 \<Rightarrow> u32 \<Rightarrow> Fault + (BinarySection \<times> u64)" where
  "input_section ctx Count r junkType junkFlags =
     (case getContentsOrQuit r of
        Inl f \<Rightarrow> Inl f
      | Inr c \<Rightarrow>
          Inr (\<lparr>BC = ctx, Name = refName r, Section = Some r,
                 Contents = c, Address = refAddress r,
                 Size = refSize r,
                 InputFileOffset =
                   (if ctxIsELF ctx then refOffset r
                    else if ctxIsMachO ctx then ucast (refMachOOffset r) else 0),
                 Alignment = ucast (refAlignment r),
                 ELFType = (if ctxIsELF ctx then refType r else junkType),
                 ELFFlags = (if ctxIsELF ctx then ucast (refFlags r) else junkFlags),
                 IsRelro = False,
                 Relocations = [], DynamicRelocations = [],
                 PendingRelocations = [],
                 Patches = [], Patcher = 0,
                 IsFinalized = False, OutputName = refName r, OutputAddress = 0,
                 OutputSize = 0, OutputFileOffset = 0, OutputContents = empty_StringRef,
                 SectionNumber = Count + 1, SectionID = [], Index = 0,
                 IsReordered = False, IsAnonymous = False, IsLinkOnly = False\<rparr>,
               Count + 1))"

text \<open>A section made from bytes the caller supplies; it has no input counterpart.\<close>

definition synthetic_section ::
  "BinaryContext \<Rightarrow> u64 \<Rightarrow> string \<Rightarrow> ptr \<Rightarrow> u64 \<Rightarrow> u32 \<Rightarrow> u32 \<Rightarrow> u32 \<Rightarrow>
     Fault + (BinarySection \<times> u64)" where
  "synthetic_section ctx Count aName aData aSize anAlignment anELFType anELFFlags =
     (let c = mk_StringRef aData (if aData \<noteq> 0 then aSize else 0) in
      if \<not> 0 < anAlignment then Inl AssertionFault
      else
        Inr (\<lparr>BC = ctx, Name = aName, Section = None,
               Contents = c, Address = 0,
               Size = aSize, InputFileOffset = 0,
               Alignment = anAlignment,
               ELFType = anELFType, ELFFlags = anELFFlags,
               IsRelro = False,
               Relocations = [], DynamicRelocations = [],
               PendingRelocations = [],
               Patches = [], Patcher = 0,
               IsFinalized = True, OutputName = aName, OutputAddress = 0,
               OutputSize = aSize, OutputFileOffset = 0, OutputContents = c,
               SectionNumber = Count + 1, SectionID = [], Index = 0,
               IsReordered = False, IsAnonymous = False, IsLinkOnly = False\<rparr>,
             Count + 1))"

subsection \<open>The ordering policy as a key\<close>

text \<open>
  The cascade of the ordering policy in the words of the specification: each section
  has a tuple of eight ranks, one per criterion, and a section comes first when its
  tuple is lexicographically smaller. The third and fourth criterion rank by input
  address and by size among sections of the input file only; the fourth ranks by size
  only where the address is not zero.
\<close>

definition ordering_key ::
  "BinarySection \<Rightarrow> nat \<times> nat \<times> nat \<times> nat \<times> nat \<times> nat \<times> nat \<times> nat" where
  "ordering_key s =
     (if isAllocatable s then 0 else 1,
      if hasSectionRef s then 0 else 1,
      if hasSectionRef s then unat (Address s) else 0,
      if hasSectionRef s \<and> Address s \<noteq> 0 then unat (Size s) else 0,
      if isText s then 0 else 1,
      if isWritable s then 1 else 0,
      if isBSS s then 1 else 0,
      unat (SectionNumber s))"

definition ordering_policy :: "BinarySection \<Rightarrow> BinarySection \<Rightarrow> bool" where
  "ordering_policy a b = (ordering_key a < ordering_key b)"

subsection \<open>Readable input contents\<close>

text \<open>
  \<^verbatim>\<open>updateContents\<close> may read the contents of the input counterpart again, and the
  process leaves when that fails. The predicate holds of a section whose input
  counterpart, if it has one, can be read; the constructor for input sections
  establishes it, since it reads the same contents.
\<close>

definition contents_readable :: "BinarySection \<Rightarrow> bool" where
  "contents_readable s =
     (case Section s of None \<Rightarrow> True | Some r \<Rightarrow> \<not> isl (getContentsOrQuit r))"

subsection \<open>Concrete sections\<close>

definition elf_context :: BinaryContext where
  "elf_context = \<lparr>ctxIsELF = True, ctxIsMachO = False\<rparr>"

definition macho_context :: BinaryContext where
  "macho_context = \<lparr>ctxIsELF = False, ctxIsMachO = True\<rparr>"

text \<open>A section without input counterpart, contents or relocations.\<close>

definition example_section :: "BinaryContext \<Rightarrow> string \<Rightarrow> u32 \<Rightarrow> u32 \<Rightarrow> u64 \<Rightarrow> BinarySection" where
  "example_section ctx aName anELFType anELFFlags aNumber =
     \<lparr>BC = ctx, Name = aName, Section = None,
      Contents = empty_StringRef, Address = 0,
      Size = 0, InputFileOffset = 0,
      Alignment = 1,
      ELFType = anELFType, ELFFlags = anELFFlags,
      IsRelro = False,
      Relocations = [], DynamicRelocations = [],
      PendingRelocations = [],
      Patches = [], Patcher = 0,
      IsFinalized = False, OutputName = aName, OutputAddress = 0,
      OutputSize = 0, OutputFileOffset = 0, OutputContents = empty_StringRef,
      SectionNumber = aNumber, SectionID = [], Index = 0,
      IsReordered = False, IsAnonymous = False, IsLinkOnly = False\<rparr>"

definition text_section :: BinarySection where
  "text_section = example_section elf_context ''.text'' SHT_PROGBITS (SHF_ALLOC OR SHF_EXECINSTR) 3"

definition data_section :: BinarySection where
  "data_section =
     (example_section elf_context ''.data'' SHT_PROGBITS (SHF_ALLOC OR SHF_WRITE) 2)\<lparr>Size := 8\<rparr>"

definition bss_section :: BinarySection where
  "bss_section = example_section elf_context ''.bss'' SHT_NOBITS (SHF_ALLOC OR SHF_WRITE) 1"

definition elf_tbss_section :: BinarySection where
  "elf_tbss_section =
     example_section elf_context ''.tbss'' SHT_NOBITS (SHF_ALLOC OR SHF_WRITE OR SHF_TLS) 1"

definition macho_tbss_section :: BinarySection where
  "macho_tbss_section =
     example_section macho_context ''.tbss'' SHT_NOBITS (SHF_ALLOC OR SHF_WRITE OR SHF_TLS) 1"

definition mapped_section :: BinarySection where
  "mapped_section =
     (example_section elf_context ''.rodata'' SHT_PROGBITS SHF_ALLOC 1)
       \<lparr>Address := 0x1000, Size := 0x10\<rparr>"

definition boundary_section :: BinarySection where
  "boundary_section =
     (example_section elf_context ''.marker'' SHT_PROGBITS SHF_ALLOC 2)\<lparr>Address := 0x1000\<rparr>"

definition reloc_a :: Relocation where
  "reloc_a = \<lparr>Offset = 4, Symbol = 0, Type = 1, Addend = 0, Value = 0\<rparr>"

definition reloc_b :: Relocation where
  "reloc_b = \<lparr>Offset = 4, Symbol = 0, Type = 2, Addend = 0, Value = 0\<rparr>"

definition reloc_far :: Relocation where
  "reloc_far = \<lparr>Offset = 10, Symbol = 0, Type = 1, Addend = 0, Value = 0\<rparr>"

text \<open>A memory with the bytes 1, 2, 3 in an array at address \<open>0x2000\<close>.\<close>

definition example_memory :: Memory where
  "example_memory =
     \<lparr>bytes = (\<lambda>a. if a = 0x2000 then 1 else if a = 0x2001 then 2
                   else if a = 0x2002 then 3 else 0),
      owned = {0x2000}\<rparr>"

text \<open>A section of an ELF input file, and the section the constructor makes of it.\<close>

definition example_ref :: SectionRef where
  "example_ref =
     \<lparr>refName = ''.text'', refObjectIsELF = True, refType = SHT_PROGBITS,
      refFlags = 6, refOffset = 0x1000, refMachOOffset = 0,
      refContents = Some \<lparr>Data = 0x7000, Length = 0x20\<rparr>,
      refAddress = 0x401000, refSize = 0x20, refAlignment = 16,
      refIsText = True, refIsData = False\<rparr>"

definition input_text_section :: BinarySection where
  "input_text_section = fst (projr (input_section elf_context 0 example_ref 0 0))"

text \<open>A data section with a record in every relocation store and a patch.\<close>

definition patched_section :: BinarySection where
  "patched_section =
     data_section\<lparr>Relocations := [reloc_b], DynamicRelocations := [reloc_a],
       PendingRelocations := [reloc_far], Patches := [\<lparr>PatchOffset = 0, Bytes = [0x90]\<rparr>]\<rparr>"

text \<open>An input section whose address and size add up to more than 64 bits hold.\<close>

definition high_ref :: SectionRef where
  "high_ref =
     \<lparr>refName = ''.high'', refObjectIsELF = True, refType = SHT_PROGBITS,
      refFlags = 2, refOffset = 0x3000, refMachOOffset = 0,
      refContents = Some \<lparr>Data = 0x9000, Length = 0x20\<rparr>,
      refAddress = 0xFFFFFFFFFFFFFFF0, refSize = 0x20, refAlignment = 16,
      refIsText = False, refIsData = True\<rparr>"

definition high_section :: BinarySection where
  "high_section = fst (projr (input_section elf_context 0 high_ref 0 0))"

section \<open>Properties\<close>

subsection \<open>Auxiliary facts\<close>

lemmas elf_constants =
  SHT_NULL_def SHT_PROGBITS_def SHT_RELA_def SHT_NOTE_def SHT_NOBITS_def SHT_RELR_def
  SHF_WRITE_def SHF_ALLOC_def SHF_EXECINSTR_def SHF_TLS_def

lemmas classification =
  isELF_def isAllocatable_def isTBSS_def isBSS_def isTLS_def isText_def isWritable_def
  hasSectionRef_def getAddress_def getSize_def

lemma Relocation_equiv_iff: "Relocation_equiv x k = (Offset x = Offset k)"
  by (auto simp: Relocation_equiv_def Relocation_less_def)

lemma mset_multiset_emplace: "mset (multiset_emplace r xs) = add_mset r (mset xs)"
  by (induction xs) auto

lemma set_multiset_emplace: "set (multiset_emplace r xs) = insert r (set xs)"
  by (induction xs) auto

text \<open>The container stays ordered by offset, as a \<^verbatim>\<open>std::multiset\<close> is.\<close>

lemma sorted_multiset_emplace:
  "sorted (map Offset xs) \<Longrightarrow> sorted (map Offset (multiset_emplace r xs))"
  by (induction xs) (auto simp: set_multiset_emplace Relocation_less_def)

lemma multiset_find_None:
  "(multiset_find k xs = None) = (\<forall>x\<in>set xs. Offset x \<noteq> Offset k)"
  by (induction xs) (auto simp: Relocation_equiv_iff)

lemma multiset_find_Some:
  "multiset_find k xs = Some i \<Longrightarrow>
     i < length xs \<and> Offset (xs ! i) = Offset k \<and> (\<forall>j<i. Offset (xs ! j) \<noteq> Offset k)"
proof (induction xs arbitrary: i)
  case Nil
  then show ?case by simp
next
  case (Cons x xs)
  show ?case
  proof (cases "Relocation_equiv x k")
    case True
    with Cons.prems show ?thesis by (simp add: Relocation_equiv_iff)
  next
    case False
    with Cons.prems obtain i' where i': "multiset_find k xs = Some i'" "i = Suc i'"
      by auto
    from Cons.IH [OF i'(1)] False i'(2) show ?thesis
      by (auto simp: Relocation_equiv_iff less_Suc_eq_0_disj)
  qed
qed

lemma mset_multiset_erase:
  "i < length xs \<Longrightarrow> mset xs = add_mset (xs ! i) (mset (multiset_erase i xs))"
proof -
  assume "i < length xs"
  then have "xs = take i xs @ (xs ! i) # drop (Suc i) xs"
    by (simp add: id_take_nth_drop)
  then have "mset xs = mset (take i xs @ (xs ! i) # drop (Suc i) xs)"
    by simp
  then show ?thesis
    by (simp add: multiset_erase_def)
qed

lemma records_at_offset_after_removal:
  fixes xs ys :: "Relocation list"
  assumes "mset xs = add_mset r (mset ys)" and "Offset r = k"
  shows "length (filter (\<lambda>x. Offset x = k) xs) = Suc (length (filter (\<lambda>x. Offset x = k) ys))"
proof -
  have len: "length (filter (\<lambda>x. Offset x = k) zs) = size (filter_mset (\<lambda>x. Offset x = k) (mset zs))"
    for zs
    by (metis mset_filter size_mset)
  have "length (filter (\<lambda>x. Offset x = k) xs) =
      size (filter_mset (\<lambda>x. Offset x = k) (add_mset r (mset ys)))"
    by (simp only: len assms(1))
  also have "\<dots> = Suc (size (filter_mset (\<lambda>x. Offset x = k) (mset ys)))"
    using assms(2) by simp
  also have "\<dots> = Suc (length (filter (\<lambda>x. Offset x = k) ys))"
    by (simp only: len)
  finally show ?thesis .
qed

lemma getDynamicRelocationAt_None:
  "(getDynamicRelocationAt s k = None) = (filter (\<lambda>x. Offset x = k) (DynamicRelocations s) = [])"
proof -
  have "(multiset_find (offset_key k) (DynamicRelocations s) = None)
      = (\<forall>x\<in>set (DynamicRelocations s). Offset x \<noteq> k)"
    by (simp add: multiset_find_None offset_key_def)
  then show ?thesis
    by (auto simp: getDynamicRelocationAt_def filter_empty_conv split: option.splits)
qed

lemma ucast_u32_u64_u32: "ucast (ucast (x :: u32) :: u64) = x"
  by (rule ucast_up_ucast_id) (simp add: is_up)

lemma addPadding_foldl:
  "OutputSize (foldl addPadding s ps) = OutputSize s + sum_list ps
   \<and> OutputContents (foldl addPadding s ps) = OutputContents s
   \<and> IsFinalized (foldl addPadding s ps) = IsFinalized s"
  by (induction ps arbitrary: s) (simp_all add: addPadding_def)

lemma releases_old_buffer_returns:
  "contents_readable s \<Longrightarrow> \<not> isl (releases_old_buffer s)"
  by (auto simp: contents_readable_def releases_old_buffer_def split: option.splits sum.splits)

lemma bytes_delete_array: "bytes (delete_array m p) = bytes m"
  by (simp add: delete_array_def)

lemma view_bytes_delete_array: "view_bytes (delete_array m p) v = view_bytes m v"
  by (simp add: view_bytes_def delete_array_def)

text \<open>
  Every constructor leaves a section whose input contents can be read, numbers it with
  the incremented counter and hands the incremented counter back.
\<close>

lemma input_section_readable:
  "input_section ctx cnt r jt jf = Inr (s, cnt') \<Longrightarrow>
     contents_readable s \<and> hasSectionRef s \<and> SectionNumber s = cnt + 1 \<and> cnt' = cnt + 1"
  by (auto simp: input_section_def contents_readable_def hasSectionRef_def split: sum.splits)

lemma synthetic_section_readable:
  "synthetic_section ctx cnt nm d n al ty fl = Inr (s, cnt') \<Longrightarrow>
     contents_readable s \<and> \<not> hasSectionRef s \<and> SectionNumber s = cnt + 1 \<and> cnt' = cnt + 1"
  by (auto simp: synthetic_section_def contents_readable_def hasSectionRef_def Let_def
      split: if_splits)

lemma copy_section_readable:
  "contents_readable (fst (copy_section ctx cnt nm src))
   \<and> SectionNumber (fst (copy_section ctx cnt nm src)) = cnt + 1
   \<and> snd (copy_section ctx cnt nm src) = cnt + 1"
  by (simp add: copy_section_def contents_readable_def)

lemma example_memory_bytes:
  "view_bytes example_memory \<lparr>Data = 0x2000, Length = 3\<rparr> = [1, 2, 3]"
  by (simp add: view_bytes_def example_memory_def upt_rec)

text \<open>When address and size add up to 2^64 or more, the end address lies below the start.\<close>

lemma end_address_wraps:
  fixes a b :: u64
  assumes "2 ^ 64 \<le> unat a + unat b"
  shows "a + b < a"
proof -
  have bound: "unat w < 2 ^ 64" for w :: u64
    by (rule order_less_le_trans [OF unsigned_less]) simp
  note b = bound [of b]
  have "unat (a + b) = (unat a + unat b) mod 2 ^ 64"
    by (simp add: unat_word_ariths)
  also have "\<dots> = unat a + unat b - 2 ^ 64"
    using assms b bound [of a] by (simp add: le_mod_geq)
  also have "\<dots> < unat a"
    using assms b by arith
  finally show ?thesis
    by (simp add: word_less_nat_alt)
qed

lemma high_section_geometry:
  "Address high_section = 0xFFFFFFFFFFFFFFF0" "Size high_section = 0x20"
  by (simp_all add: high_section_def input_section_def getContentsOrQuit_def high_ref_def
      elf_constants)

text \<open>The program's comparison is the lexicographic comparison of the keys.\<close>

lemma section_less_ordering_key: "section_less a b = ordering_policy a b"
  unfolding section_less_def ordering_policy_def ordering_key_def getAddress_def getSize_def
  by (auto simp: word_less_nat_alt word_unat_eq_iff)

subsection \<open>The order of sections\<close>

text \<open>
  C1. The comparison \<^verbatim>\<open>operator<\<close> decides as the cascade of the ordering policy does:
  allocatable first, sections of the input file first, among these ascending input
  address and, at one address other than zero, ascending size, then executable first,
  read-only first, BSS last, and at last ascending creation sequence. It is a strict
  total order: no section is before itself, the comparison is asymmetric and transitive,
  and of two sections with different creation sequence numbers exactly one is before
  the other.
\<close>

theorem section_less_strict_total_order:
  "section_less a b = ordering_policy a b
   \<and> \<not> section_less a a
   \<and> (section_less a b \<longrightarrow> \<not> section_less b a)
   \<and> (section_less a b \<and> section_less b c \<longrightarrow> section_less a c)
   \<and> (SectionNumber a \<noteq> SectionNumber b \<longrightarrow> section_less a b \<noteq> section_less b a)"
proof -
  have ne: "SectionNumber a \<noteq> SectionNumber b \<Longrightarrow> ordering_key a \<noteq> ordering_key b"
    by (simp add: ordering_key_def word_unat_eq_iff)
  show ?thesis
    unfolding section_less_ordering_key ordering_policy_def
    using ne by (auto dest: less_trans)
qed

theorem section_less_strict_total_order_witness:
  "section_less text_section data_section \<and> section_less data_section bss_section
   \<and> section_less text_section bss_section
   \<and> \<not> section_less data_section text_section
   \<and> SectionNumber text_section \<noteq> SectionNumber data_section
   \<and> ordering_policy text_section data_section"
proof -
  have ab: "section_less text_section data_section"
    by (simp add: section_less_def text_section_def data_section_def example_section_def
        elf_context_def classification elf_constants)
  have bc: "section_less data_section bss_section"
    by (simp add: section_less_def data_section_def bss_section_def example_section_def
        elf_context_def classification elf_constants)
  have ne: "SectionNumber text_section \<noteq> SectionNumber data_section"
    by (simp add: text_section_def data_section_def example_section_def)
  show ?thesis
    using section_less_strict_total_order [of text_section data_section bss_section] ab bc ne
    by simp
qed

subsection \<open>Classification\<close>

text \<open>
  C4. In an ELF image a section whose type and flags mark it both TLS and BSS is not
  allocatable, also when the flag \<^verbatim>\<open>SHF_ALLOC\<close> is set: there \<^verbatim>\<open>isAllocatable\<close> is the
  flag together with not being TLS-BSS. Outside ELF every section is allocatable,
  whatever its type and flags say.
\<close>

theorem tbss_not_allocatable_in_elf:
  "(isELF s \<and> isTBSS s \<longrightarrow> \<not> isAllocatable s)
   \<and> (isELF s \<longrightarrow> isAllocatable s = (ELFFlags s AND SHF_ALLOC \<noteq> 0 \<and> \<not> isTBSS s))
   \<and> (\<not> isELF s \<longrightarrow> isAllocatable s)"
  by (simp add: isAllocatable_def)

theorem tbss_not_allocatable_in_elf_witness:
  "isELF elf_tbss_section \<and> isTBSS elf_tbss_section
   \<and> ELFFlags elf_tbss_section AND SHF_ALLOC \<noteq> 0
   \<and> \<not> isAllocatable elf_tbss_section"
proof -
  have h: "isELF elf_tbss_section \<and> isTBSS elf_tbss_section
      \<and> ELFFlags elf_tbss_section AND SHF_ALLOC \<noteq> 0"
    by (simp add: elf_tbss_section_def example_section_def elf_context_def isELF_def
        isTBSS_def isBSS_def isTLS_def elf_constants)
  show ?thesis
    using tbss_not_allocatable_in_elf [of elf_tbss_section] h by simp
qed

text \<open>
  The statement without the restriction to ELF fails: in a Mach-O context a section
  with the same type and flags is TLS-BSS and allocatable.
\<close>

theorem tbss_allocatable_outside_elf:
  "isTBSS macho_tbss_section \<and> isAllocatable macho_tbss_section"
  by (simp add: macho_tbss_section_def example_section_def macho_context_def
      isAllocatable_def isELF_def isTBSS_def isBSS_def isTLS_def elf_constants)

subsection \<open>Address queries\<close>

text \<open>
  C7. \<^verbatim>\<open>containsAddress\<close> and \<^verbatim>\<open>containsRange\<close> read the input address and the input
  size only. For a section of nonzero size whose start and size add up to less than
  \<open>2^64\<close>, \<^verbatim>\<open>containsAddress(A)\<close> holds exactly when \<open>start \<le> A < start + size\<close>. When
  they add up to \<open>2^64\<close> or more, the end address wraps around and a section of nonzero
  size contains no address at all; in every case the test is
  \<open>start \<le> A < start + size\<close> with the sum taken in 64 bits. A section of size zero
  contains its own start address and no other.
\<close>

theorem containsAddress_input_geometry:
  "(Size s \<noteq> 0 \<and> unat (Address s) + unat (Size s) < 2 ^ 64 \<longrightarrow>
        containsAddress s A =
          (unat (Address s) \<le> unat A \<and> unat A < unat (Address s) + unat (Size s)))
   \<and> (Size s \<noteq> 0 \<and> 2 ^ 64 \<le> unat (Address s) + unat (Size s) \<longrightarrow> \<not> containsAddress s A)
   \<and> (Size s \<noteq> 0 \<longrightarrow> containsAddress s A = (Address s \<le> A \<and> A < Address s + Size s))
   \<and> (Size s = 0 \<longrightarrow> containsAddress s A = (A = Address s))
   \<and> containsRange s A n = (containsAddress s A \<and> A + n \<le> Address s + Size s)
   \<and> (Address t = Address s \<and> Size t = Size s \<longrightarrow>
        containsAddress t A = containsAddress s A \<and>
        containsRange t A n = containsRange s A n)"
proof -
  have nowrap: "unat (Address s) + unat (Size s) < 2 ^ 64 \<Longrightarrow>
      unat (Address s + Size s) = unat (Address s) + unat (Size s)"
    by (simp add: unat_add_lem [THEN iffD1])
  have wrap: "\<not> containsAddress s A"
    if "Size s \<noteq> 0" "2 ^ 64 \<le> unat (Address s) + unat (Size s)"
  proof -
    from that(2) have "Address s + Size s < Address s"
      by (rule end_address_wraps)
    with that(1) show ?thesis
      by (auto simp: containsAddress_def getAddress_def getEndAddress_def getSize_def)
  qed
  show ?thesis
    using nowrap wrap
    by (auto simp: containsAddress_def containsRange_def getAddress_def getEndAddress_def
        getSize_def word_le_nat_alt word_less_nat_alt)
qed

theorem containsAddress_input_geometry_witness:
  "Size mapped_section \<noteq> 0
   \<and> unat (Address mapped_section) + unat (Size mapped_section) < 2 ^ 64
   \<and> containsAddress mapped_section 0x1000 \<and> containsAddress mapped_section 0x100F
   \<and> \<not> containsAddress mapped_section 0x1010 \<and> \<not> containsAddress mapped_section 0xFFF
   \<and> Size high_section \<noteq> 0
   \<and> 2 ^ 64 \<le> unat (Address high_section) + unat (Size high_section)
   \<and> \<not> containsAddress high_section 0xFFFFFFFFFFFFFFF8
   \<and> Size boundary_section = 0
   \<and> containsAddress boundary_section 0x1000 \<and> \<not> containsAddress boundary_section 0x1001
   \<and> Address (mapped_section\<lparr>OutputAddress := 0x5000, OutputSize := 0x40\<rparr>) = Address mapped_section
   \<and> containsAddress (mapped_section\<lparr>OutputAddress := 0x5000, OutputSize := 0x40\<rparr>) 0x100F"
proof -
  let ?moved = "mapped_section\<lparr>OutputAddress := 0x5000, OutputSize := 0x40\<rparr>"
  have m: "Address mapped_section = 0x1000" "Size mapped_section = 0x10"
    by (simp_all add: mapped_section_def example_section_def)
  have b: "Address boundary_section = 0x1000" "Size boundary_section = 0"
    by (simp_all add: boundary_section_def example_section_def)
  have nz: "Size mapped_section \<noteq> 0"
    by (simp add: m)
  have nowrap: "unat (Address mapped_section) + unat (Size mapped_section) < 2 ^ 64"
    by (simp add: m)
  have hnz: "Size high_section \<noteq> 0"
    by (simp add: high_section_geometry)
  have wraps: "2 ^ 64 \<le> unat (Address high_section) + unat (Size high_section)"
    by (simp add: high_section_geometry)
  have first: "containsAddress mapped_section 0x1000"
    using containsAddress_input_geometry [of mapped_section "0x1000"] nz nowrap by (simp add: m)
  have last: "containsAddress mapped_section 0x100F"
    using containsAddress_input_geometry [of mapped_section "0x100F"] nz nowrap by (simp add: m)
  have after: "\<not> containsAddress mapped_section 0x1010"
    using containsAddress_input_geometry [of mapped_section "0x1010"] nz nowrap by (simp add: m)
  have before: "\<not> containsAddress mapped_section 0xFFF"
    using containsAddress_input_geometry [of mapped_section "0xFFF"] nz nowrap by (simp add: m)
  have wrapped: "\<not> containsAddress high_section 0xFFFFFFFFFFFFFFF8"
    using containsAddress_input_geometry [of high_section "0xFFFFFFFFFFFFFFF8"] hnz wraps by blast
  have start: "containsAddress boundary_section 0x1000"
    using containsAddress_input_geometry [of boundary_section "0x1000"] by (simp add: b)
  have next_one: "\<not> containsAddress boundary_section 0x1001"
    using containsAddress_input_geometry [of boundary_section "0x1001"] by (simp add: b)
  have same: "Address ?moved = Address mapped_section" "Size ?moved = Size mapped_section"
    by simp_all
  have moved: "containsAddress ?moved 0x100F"
    using containsAddress_input_geometry [of mapped_section "0x100F" 0 ?moved] same last
    by blast
  from nz nowrap first last after before hnz wraps wrapped b(2) start next_one same(1) moved
  show ?thesis
    by blast
qed

text \<open>
  Without the bound on start plus size the interval fails: the input section at
  \<open>0xFFFFFFFFFFFFFFF0\<close> of size \<open>0x20\<close> has nonzero size, its start lies in the interval
  from start to start plus size, and it does not contain its start.
\<close>

theorem containsAddress_end_wraps:
  "Size high_section \<noteq> 0
   \<and> unat (Address high_section) \<le> unat (0xFFFFFFFFFFFFFFF0 :: u64)
   \<and> unat (0xFFFFFFFFFFFFFFF0 :: u64) < unat (Address high_section) + unat (Size high_section)
   \<and> \<not> containsAddress high_section 0xFFFFFFFFFFFFFFF0"
  by (simp add: containsAddress_def getAddress_def getEndAddress_def getSize_def
      high_section_geometry)

subsection \<open>The section id\<close>

text \<open>
  C8. \<^verbatim>\<open>setSectionID\<close> succeeds exactly when the section has no valid (non-empty)
  section id yet, and then stores the id. Once a non-empty id is stored, a further call
  is an assertion fault and yields no changed section, so the id stored first stays. A
  call that stores the empty id leaves the section without valid id, and the next call
  succeeds.
\<close>

theorem setSectionID_once:
  "(setSectionID s ID = Inr s' \<longrightarrow> \<not> hasValidSectionID s \<and> s' = s\<lparr>SectionID := ID\<rparr>)
   \<and> (\<not> hasValidSectionID s \<longrightarrow> setSectionID s ID = Inr (s\<lparr>SectionID := ID\<rparr>))
   \<and> (hasValidSectionID s \<longrightarrow> setSectionID s ID = Inl AssertionFault)
   \<and> (setSectionID s ID = Inr s' \<and> ID \<noteq> [] \<longrightarrow>
        setSectionID s' ID2 = Inl AssertionFault \<and> getSectionID s' = Inr ID)
   \<and> (setSectionID s ID = Inr s' \<and> ID = [] \<longrightarrow>
        \<not> hasValidSectionID s' \<and> setSectionID s' ID2 = Inr (s'\<lparr>SectionID := ID2\<rparr>))"
  by (auto simp: setSectionID_def hasValidSectionID_def getSectionID_def)

theorem setSectionID_once_witness:
  "\<not> hasValidSectionID text_section
   \<and> setSectionID text_section ''section-1'' = Inr (text_section\<lparr>SectionID := ''section-1''\<rparr>)
   \<and> setSectionID (text_section\<lparr>SectionID := ''section-1''\<rparr>) ''section-2'' = Inl AssertionFault
   \<and> getSectionID (text_section\<lparr>SectionID := ''section-1''\<rparr>) = Inr ''section-1''
   \<and> setSectionID data_section [] = Inr (data_section\<lparr>SectionID := []\<rparr>)
   \<and> \<not> hasValidSectionID (data_section\<lparr>SectionID := []\<rparr>)
   \<and> setSectionID (data_section\<lparr>SectionID := []\<rparr>) ''section-3''
       = Inr (data_section\<lparr>SectionID := ''section-3''\<rparr>)"
proof -
  note once = setSectionID_once [of text_section "''section-1''"
      "text_section\<lparr>SectionID := ''section-1''\<rparr>" "''section-2''"]
  note unset = setSectionID_once [of data_section "[]" "data_section\<lparr>SectionID := []\<rparr>" "''section-3''"]
  have h: "\<not> hasValidSectionID text_section"
    by (simp add: hasValidSectionID_def text_section_def example_section_def)
  have hd: "\<not> hasValidSectionID data_section"
    by (simp add: hasValidSectionID_def data_section_def example_section_def)
  from once h have first:
    "setSectionID text_section ''section-1'' = Inr (text_section\<lparr>SectionID := ''section-1''\<rparr>)"
    by blast
  have "''section-1'' \<noteq> []"
    by simp
  with once first have second:
    "setSectionID (text_section\<lparr>SectionID := ''section-1''\<rparr>) ''section-2'' = Inl AssertionFault
     \<and> getSectionID (text_section\<lparr>SectionID := ''section-1''\<rparr>) = Inr ''section-1''"
    by blast
  from unset hd have empty: "setSectionID data_section [] = Inr (data_section\<lparr>SectionID := []\<rparr>)"
    by blast
  with unset have again:
    "\<not> hasValidSectionID (data_section\<lparr>SectionID := []\<rparr>)
     \<and> setSectionID (data_section\<lparr>SectionID := []\<rparr>) ''section-3''
         = Inr (data_section\<lparr>SectionID := []\<rparr>\<lparr>SectionID := ''section-3''\<rparr>)"
    by blast
  then have again': "\<not> hasValidSectionID (data_section\<lparr>SectionID := []\<rparr>)
     \<and> setSectionID (data_section\<lparr>SectionID := []\<rparr>) ''section-3''
         = Inr (data_section\<lparr>SectionID := ''section-3''\<rparr>)"
    by simp
  from h first second empty again' show ?thesis
    by blast
qed

text \<open>
  A second call is not always a fault: after the empty id has been set, the section id can
  be set again.
\<close>

theorem setSectionID_after_empty_id:
  "setSectionID text_section [] = Inr (text_section\<lparr>SectionID := []\<rparr>)
   \<and> setSectionID (text_section\<lparr>SectionID := []\<rparr>) ''section-2''
       = Inr (text_section\<lparr>SectionID := ''section-2''\<rparr>)"
  by (simp add: setSectionID_def hasValidSectionID_def text_section_def example_section_def)

subsection \<open>Equality of sections\<close>

text \<open>
  C10. \<^verbatim>\<open>operator==\<close> holds exactly when the two sections agree on name, input address,
  input size, the data pointer of the input contents, alignment, ELF type and ELF flags.
  Output contents, output size, finalization, the relocation stores, patches, output
  name, layout assignments and section id have no influence, and of the input contents
  only the pointer counts, neither the length nor the bytes.
\<close>

theorem section_eq_input_identity:
  "section_eq a b =
     (Name a = Name b \<and> Address a = Address b \<and> Size a = Size b \<and>
      Data (Contents a) = Data (Contents b) \<and> Alignment a = Alignment b \<and>
      ELFType a = ELFType b \<and> ELFFlags a = ELFFlags b)
   \<and> section_eq
       (a\<lparr>OutputContents := oc, OutputSize := os, IsFinalized := fin,
          Relocations := rs, DynamicRelocations := ds, PendingRelocations := ps,
          Patches := pt, OutputName := nm, OutputAddress := oa, OutputFileOffset := fo,
          Index := ix, SectionID := sid\<rparr>) b = section_eq a b
   \<and> section_eq a
       (b\<lparr>OutputContents := oc, OutputSize := os, IsFinalized := fin,
          Relocations := rs, DynamicRelocations := ds, PendingRelocations := ps,
          Patches := pt, OutputName := nm, OutputAddress := oa, OutputFileOffset := fo,
          Index := ix, SectionID := sid\<rparr>) = section_eq a b
   \<and> section_eq (a\<lparr>Contents := c\<rparr>) (a\<lparr>Contents := c'\<rparr>) = (Data c = Data c')"
  by (simp add: section_eq_def getData_def getContents_def)

subsection \<open>Relocation stores\<close>

text \<open>
  C2. An insertion into the static store (\<^verbatim>\<open>addRelocation\<close>) or into the dynamic store
  (\<^verbatim>\<open>addDynamicRelocation\<close>) is an assertion fault exactly when the offset is not below the
  size of the section; when it succeeds the offset is below the size, the store has
  gained exactly the new record, nothing else has changed, and a store whose offsets
  were all below the size still is so. \<^verbatim>\<open>addPendingRelocation\<close> checks nothing: it
  appends the record to the pending store whatever its offset.
\<close>

theorem relocation_offset_within_section:
  "(addRelocation s k sy ty ad va = Inl AssertionFault) = (\<not> k < Size s)
   \<and> (addDynamicRelocation s k sy ty ad va = Inl AssertionFault) = (\<not> k < Size s)
   \<and> (addRelocation s k sy ty ad va = Inr s' \<longrightarrow>
        k < Size s \<and>
        s' = s\<lparr>Relocations := Relocations s'\<rparr> \<and>
        mset (Relocations s') =
          add_mset \<lparr>Offset = k, Symbol = sy, Type = ty, Addend = ad, Value = va\<rparr>
            (mset (Relocations s)) \<and>
        ((\<forall>r\<in>set (Relocations s). Offset r < Size s) \<longrightarrow>
           (\<forall>r\<in>set (Relocations s'). Offset r < Size s')))
   \<and> (addDynamicRelocation s k sy ty ad va = Inr s' \<longrightarrow>
        k < Size s \<and>
        s' = s\<lparr>DynamicRelocations := DynamicRelocations s'\<rparr> \<and>
        mset (DynamicRelocations s') =
          add_mset \<lparr>Offset = k, Symbol = sy, Type = ty, Addend = ad, Value = va\<rparr>
            (mset (DynamicRelocations s)) \<and>
        ((\<forall>r\<in>set (DynamicRelocations s). Offset r < Size s) \<longrightarrow>
           (\<forall>r\<in>set (DynamicRelocations s'). Offset r < Size s')))
   \<and> addPendingRelocation s Rel = s\<lparr>PendingRelocations := PendingRelocations s @ [Rel]\<rparr>"
  by (auto simp: addRelocation_def addDynamicRelocation_def addDynamicRelocationRec_def
      addPendingRelocation_def getSize_def mset_multiset_emplace set_multiset_emplace)

theorem relocation_offset_within_section_witness:
  "addRelocation data_section 4 0 1 0 0 = Inr (data_section\<lparr>Relocations := [reloc_a]\<rparr>)
   \<and> addDynamicRelocation data_section 4 0 1 0 0
       = Inr (data_section\<lparr>DynamicRelocations := [reloc_a]\<rparr>)
   \<and> (4 :: u64) < Size data_section
   \<and> Offset reloc_a < Size (data_section\<lparr>Relocations := [reloc_a]\<rparr>)
   \<and> addRelocation data_section 8 0 1 0 0 = Inl AssertionFault
   \<and> addDynamicRelocation data_section 8 0 1 0 0 = Inl AssertionFault"
proof -
  let ?static = "data_section\<lparr>Relocations := [reloc_a]\<rparr>"
  let ?dynamic = "data_section\<lparr>DynamicRelocations := [reloc_a]\<rparr>"
  have sz: "Size data_section = 8" and rels: "Relocations data_section = []"
    "DynamicRelocations data_section = []"
    by (simp_all add: data_section_def example_section_def)
  have add: "addRelocation data_section 4 0 1 0 0 = Inr ?static"
    by (simp add: addRelocation_def getSize_def sz rels reloc_a_def)
  have dyn: "addDynamicRelocation data_section 4 0 1 0 0 = Inr ?dynamic"
    by (simp add: addDynamicRelocation_def addDynamicRelocationRec_def getSize_def sz rels
        reloc_a_def)
  have inside: "(4 :: u64) < Size data_section"
    using relocation_offset_within_section [of data_section 4 0 1 0 0 ?static] add by blast
  have bounded: "Offset reloc_a < Size ?static"
    using relocation_offset_within_section [of data_section 4 0 1 0 0 ?static] add rels
    by (simp add: reloc_a_def)
  have out: "\<not> (8 :: u64) < Size data_section"
    by (simp add: sz)
  have fault: "addRelocation data_section 8 0 1 0 0 = Inl AssertionFault"
    "addDynamicRelocation data_section 8 0 1 0 0 = Inl AssertionFault"
    using relocation_offset_within_section [of data_section 8 0 1 0 0] out by blast+
  from add dyn inside bounded fault show ?thesis
    by blast
qed

text \<open>
  The bound does not hold of the pending store: a record at offset 10 enters the pending
  store of a section of size 8 without fault.
\<close>

theorem pending_relocation_out_of_bounds:
  "PendingRelocations (addPendingRelocation data_section reloc_far) = [reloc_far]
   \<and> Size data_section = 8 \<and> Offset reloc_far = 10
   \<and> \<not> Offset reloc_far < getSize data_section"
  by (simp add: addPendingRelocation_def data_section_def example_section_def reloc_far_def
      getSize_def)

text \<open>
  C5. \<^verbatim>\<open>takeDynamicRelocationAt\<close> returns none, and changes nothing, exactly when the
  dynamic store has no record at the offset. Otherwise it returns the record that
  \<^verbatim>\<open>getDynamicRelocationAt\<close> finds there and removes this one record, all others staying:
  the number of records at the offset drops by one, and a following
  \<^verbatim>\<open>getDynamicRelocationAt\<close> at the offset returns none exactly when the record taken was
  the only one at the offset.
\<close>

theorem takeDynamicRelocationAt_removes_one:
 "takeDynamicRelocationAt s k = (res, s') \<Longrightarrow>
    (res = None) = (\<forall>r\<in>set (DynamicRelocations s). Offset r \<noteq> k) \<and>
    (res = None \<longrightarrow> s' = s) \<and>
    res = getDynamicRelocationAt s k \<and>
    s' = s\<lparr>DynamicRelocations := DynamicRelocations s'\<rparr> \<and>
    (\<forall>r. res = Some r \<longrightarrow> Offset r = k \<and>
         mset (DynamicRelocations s) = add_mset r (mset (DynamicRelocations s')) \<and>
         length (filter (\<lambda>x. Offset x = k) (DynamicRelocations s)) =
           Suc (length (filter (\<lambda>x. Offset x = k) (DynamicRelocations s'))) \<and>
         (getDynamicRelocationAt s' k = None) =
           (length (filter (\<lambda>x. Offset x = k) (DynamicRelocations s)) = 1))"
proof (cases "multiset_find (offset_key k) (DynamicRelocations s)")
  case None
  assume t: "takeDynamicRelocationAt s k = (res, s')"
  from None t have "res = None" "s' = s"
    by (simp_all add: takeDynamicRelocationAt_def)
  moreover from None have "\<forall>r\<in>set (DynamicRelocations s). Offset r \<noteq> k"
    by (simp add: multiset_find_None offset_key_def)
  moreover from None have "getDynamicRelocationAt s k = None"
    by (simp add: getDynamicRelocationAt_def)
  ultimately show ?thesis by simp
next
  case (Some i)
  assume t: "takeDynamicRelocationAt s k = (res, s')"
  let ?xs = "DynamicRelocations s"
  from Some t have res: "res = Some (?xs ! i)"
    and s': "s' = s\<lparr>DynamicRelocations := multiset_erase i ?xs\<rparr>"
    by (simp_all add: takeDynamicRelocationAt_def)
  from multiset_find_Some [OF Some] have i: "i < length ?xs" and off: "Offset (?xs ! i) = k"
    by (simp_all add: offset_key_def)
  from i have ex: "\<not> (\<forall>r\<in>set ?xs. Offset r \<noteq> k)"
    using off nth_mem by blast
  from Some have get: "getDynamicRelocationAt s k = Some (?xs ! i)"
    by (simp add: getDynamicRelocationAt_def)
  have ms: "mset ?xs = add_mset (?xs ! i) (mset (DynamicRelocations s'))"
    using mset_multiset_erase [OF i] s' by simp
  have cnt: "length (filter (\<lambda>x. Offset x = k) ?xs) =
      Suc (length (filter (\<lambda>x. Offset x = k) (DynamicRelocations s')))"
    by (rule records_at_offset_after_removal [OF ms off])
  have after: "(getDynamicRelocationAt s' k = None) =
      (length (filter (\<lambda>x. Offset x = k) ?xs) = 1)"
    by (simp add: getDynamicRelocationAt_None cnt)
  show ?thesis
    using res s' off ex get ms cnt after by simp
qed

theorem takeDynamicRelocationAt_removes_one_witness:
  "takeDynamicRelocationAt (data_section\<lparr>DynamicRelocations := [reloc_a]\<rparr>) 4
     = (Some reloc_a, data_section\<lparr>DynamicRelocations := []\<rparr>)
   \<and> getDynamicRelocationAt (data_section\<lparr>DynamicRelocations := [reloc_a]\<rparr>) 4 = Some reloc_a
   \<and> getDynamicRelocationAt (data_section\<lparr>DynamicRelocations := []\<rparr>) 4 = None"
proof -
  let ?s = "data_section\<lparr>DynamicRelocations := [reloc_a]\<rparr>"
  let ?s' = "data_section\<lparr>DynamicRelocations := []\<rparr>"
  have t: "takeDynamicRelocationAt ?s 4 = (Some reloc_a, ?s')"
    by (simp add: takeDynamicRelocationAt_def offset_key_def reloc_a_def Relocation_equiv_iff
        multiset_erase_def)
  have one: "length (filter (\<lambda>x. Offset x = 4) (DynamicRelocations ?s)) = 1"
    by (simp add: reloc_a_def)
  note spec = takeDynamicRelocationAt_removes_one [OF t]
  from spec have found: "getDynamicRelocationAt ?s 4 = Some reloc_a"
    by simp
  from spec one have gone: "getDynamicRelocationAt ?s' 4 = None"
    by blast
  from t found gone show ?thesis
    by blast
qed

text \<open>
  With two records at one offset, both inserted by \<^verbatim>\<open>addDynamicRelocation\<close>, the lookup
  after a successful take still finds a record.
\<close>

theorem take_leaves_second_record:
  "addDynamicRelocationRec data_section reloc_a
       = Inr (data_section\<lparr>DynamicRelocations := [reloc_a]\<rparr>)
   \<and> addDynamicRelocationRec (data_section\<lparr>DynamicRelocations := [reloc_a]\<rparr>) reloc_b
       = Inr (data_section\<lparr>DynamicRelocations := [reloc_a, reloc_b]\<rparr>)
   \<and> takeDynamicRelocationAt (data_section\<lparr>DynamicRelocations := [reloc_a, reloc_b]\<rparr>) 4
       = (Some reloc_a, data_section\<lparr>DynamicRelocations := [reloc_b]\<rparr>)
   \<and> getDynamicRelocationAt (data_section\<lparr>DynamicRelocations := [reloc_b]\<rparr>) 4 = Some reloc_b"
  by (simp add: addDynamicRelocationRec_def takeDynamicRelocationAt_def getDynamicRelocationAt_def
      data_section_def example_section_def reloc_a_def reloc_b_def getSize_def offset_key_def
      Relocation_less_def Relocation_equiv_def multiset_erase_def)

subsection \<open>Contents\<close>

text \<open>
  C3. The constructor from caller-supplied bytes, given an alignment above zero, returns
  a section that is finalized, has the given size as output size, has no input
  counterpart, and whose input contents and output contents are one and the same view:
  the given pointer with the given size, or the empty view for a null pointer. For a
  pointer that is not null the output contents read back as the bytes supplied.
\<close>

theorem synthetic_section_finalized_roundtrip:
  "0 < al \<Longrightarrow>
   (case synthetic_section ctx cnt nm d n al ty fl of
      Inl f \<Rightarrow> False
    | Inr (s, cnt') \<Rightarrow>
        cnt' = cnt + 1 \<and> isFinalized s \<and> getOutputSize s = n \<and> \<not> hasSectionRef s \<and>
        getContents s = mk_StringRef d (if d \<noteq> 0 then n else 0) \<and>
        getOutputContents s = getContents s \<and>
        (d \<noteq> 0 \<longrightarrow> view_bytes m (getOutputContents s) = view_bytes m (mk_StringRef d n)))"
  by (simp add: synthetic_section_def Let_def isFinalized_def getOutputSize_def hasSectionRef_def
      getContents_def getOutputContents_def)

theorem synthetic_section_finalized_roundtrip_witness:
  "(0 :: u32) < 1 \<and>
   (case synthetic_section elf_context 0 ''.note.bolt'' 0x2000 3 1 SHT_NOTE 0 of
      Inl f \<Rightarrow> False
    | Inr (s, cnt') \<Rightarrow>
        cnt' = 1 \<and> isFinalized s \<and> getOutputSize s = 3 \<and>
        getContents s = \<lparr>Data = 0x2000, Length = 3\<rparr> \<and>
        view_bytes example_memory (getOutputContents s) = [1, 2, 3])"
proof -
  have al: "(0 :: u32) < 1"
    by simp
  show ?thesis
    using al synthetic_section_finalized_roundtrip
      [OF al, where ctx = elf_context and cnt = 0 and nm = "''.note.bolt''" and d = "0x2000"
        and n = 3 and ty = SHT_NOTE and fl = 0 and m = example_memory]
    by (auto split: sum.splits prod.splits simp: mk_StringRef_def example_memory_bytes)
qed

text \<open>
  The input contents of such a section are not empty: they are the bytes supplied.
\<close>

theorem synthetic_section_input_contents_not_empty:
  "\<not> isl (synthetic_section elf_context 0 ''.note.bolt'' 0x2000 3 1 SHT_NOTE 0)
   \<and> getContents (fst (projr (synthetic_section elf_context 0 ''.note.bolt'' 0x2000 3 1 SHT_NOTE 0)))
       = \<lparr>Data = 0x2000, Length = 3\<rparr>
   \<and> view_bytes example_memory
        (getContents (fst (projr (synthetic_section elf_context 0 ''.note.bolt'' 0x2000 3 1 SHT_NOTE 0))))
       = [1, 2, 3]"
  by (simp add: synthetic_section_def Let_def getContents_def mk_StringRef_def example_memory_bytes)

text \<open>
  C6. On a section whose input contents can be read, \<^verbatim>\<open>updateContents(bytes, n)\<close>
  returns, and then the output size is \<open>n\<close>, the section is finalized and the output
  contents are the view of \<open>n\<close> bytes at the pointer, or the empty view for a null
  pointer; no byte of memory has changed. A following \<^verbatim>\<open>addPadding(p)\<close> adds exactly \<open>p\<close>
  to the output size (in 64 bits) and leaves the output contents and their bytes as they
  are; after any sequence of paddings the output size is \<open>n\<close> plus their sum. The output
  size is the length of the output contents plus the paddings when the pointer is not
  null or \<open>n\<close> is zero.
\<close>

theorem updateContents_addPadding_size:
  "contents_readable s \<Longrightarrow>
   (case updateContents m s d n of
      Inl f \<Rightarrow> False
    | Inr (s', m') \<Rightarrow>
        getOutputSize s' = n \<and> isFinalized s' \<and>
        getOutputContents s' = mk_StringRef d (if d \<noteq> 0 then n else 0) \<and>
        bytes m' = bytes m \<and>
        getOutputSize (addPadding s' p) = getOutputSize s' + p \<and>
        getOutputContents (addPadding s' p) = getOutputContents s' \<and>
        view_bytes m' (getOutputContents (addPadding s' p)) = view_bytes m (getOutputContents s') \<and>
        isFinalized (addPadding s' p) \<and>
        getOutputContents (foldl addPadding s' ps) = getOutputContents s' \<and>
        getOutputSize (foldl addPadding s' ps) = n + sum_list ps \<and>
        (d \<noteq> 0 \<or> n = 0 \<longrightarrow>
           getOutputSize (foldl addPadding s' ps) =
             Length (getOutputContents (foldl addPadding s' ps)) + sum_list ps))"
proof -
  assume "contents_readable s"
  then obtain rel where rel: "releases_old_buffer s = Inr rel"
    using releases_old_buffer_returns [of s] by (cases "releases_old_buffer s") auto
  show ?thesis
    by (auto simp: updateContents_def rel getOutputSize_def isFinalized_def getOutputContents_def
        addPadding_foldl mk_StringRef_def bytes_delete_array addPadding_def view_bytes_delete_array)
qed

theorem updateContents_addPadding_size_witness:
  "contents_readable text_section \<and>
   (case updateContents example_memory text_section 0x2000 3 of
      Inl f \<Rightarrow> False
    | Inr (s', m') \<Rightarrow>
        getOutputSize s' = 3 \<and> isFinalized s' \<and>
        getOutputSize (addPadding s' 5) = 8 \<and>
        view_bytes m' (getOutputContents (addPadding s' 5)) = [1, 2, 3] \<and>
        getOutputSize (foldl addPadding s' [5, 7]) = 15)"
proof -
  have r: "contents_readable text_section"
    by (simp add: contents_readable_def text_section_def example_section_def)
  show ?thesis
    using r updateContents_addPadding_size
      [OF r, where m = example_memory and d = "0x2000" and n = 3 and p = 5 and ps = "[5, 7]"]
    by (auto split: sum.splits prod.splits simp: mk_StringRef_def example_memory_bytes)
qed

text \<open>
  With a null pointer and a size of 4 the output size is 4 while the output contents are
  empty and no padding has been requested.
\<close>

theorem updateContents_null_data_size:
  "\<not> isl (updateContents example_memory bss_section 0 4)
   \<and> getOutputSize (fst (projr (updateContents example_memory bss_section 0 4))) = 4
   \<and> Length (getOutputContents (fst (projr (updateContents example_memory bss_section 0 4)))) = 0
   \<and> view_bytes example_memory
        (getOutputContents (fst (projr (updateContents example_memory bss_section 0 4)))) = []"
  by (simp add: updateContents_def releases_old_buffer_def bss_section_def example_section_def
      getOutputData_def getOutputContents_def empty_StringRef_def getOutputSize_def mk_StringRef_def
      view_bytes_def)

subsection \<open>Copying a section\<close>

text \<open>
  C9. The copy of a section under a new name has the source's input contents, address,
  size, alignment, ELF type and flags, static relocations and pending relocations; its
  dynamic relocation store and its patch list are empty; it has no input counterpart,
  so that every section of the input file with the same allocatability comes before it
  in the order; and its creation sequence number is the incremented counter, which is
  above the source's number whenever the source's number is at most the counter and the
  counter has not reached its last value.
\<close>

theorem copy_section_fields:
  "copy_section ctx cnt nm src = (s, cnt') \<Longrightarrow>
     Name s = nm \<and> getContents s = getContents src \<and> Address s = Address src \<and>
     Size s = Size src \<and> Alignment s = Alignment src \<and>
     ELFType s = ELFType src \<and> ELFFlags s = ELFFlags src \<and>
     Relocations s = Relocations src \<and> PendingRelocations s = PendingRelocations src \<and>
     DynamicRelocations s = [] \<and> Patches s = [] \<and>
     \<not> hasSectionRef s \<and>
     (\<forall>t. hasSectionRef t \<and> isAllocatable t = isAllocatable s \<longrightarrow> section_less t s) \<and>
     SectionNumber s = cnt + 1 \<and> cnt' = cnt + 1 \<and>
     (SectionNumber src \<le> cnt \<and> cnt \<noteq> - 1 \<longrightarrow> SectionNumber src < SectionNumber s)"
proof -
  assume c: "copy_section ctx cnt nm src = (s, cnt')"
  have gt: "SectionNumber src < cnt + 1" if "SectionNumber src \<le> cnt" "cnt \<noteq> - 1"
  proof -
    from that(2) have "cnt < cnt + 1"
      by (simp add: inc_less_eq_self_iff_eq flip: not_le)
    with that(1) show ?thesis by simp
  qed
  have noref: "\<not> hasSectionRef s"
    using c by (auto simp: copy_section_def hasSectionRef_def)
  have ord: "section_less t s" if "hasSectionRef t" "isAllocatable t = isAllocatable s" for t
    using that noref by (simp add: section_less_def)
  from c gt noref ord show ?thesis
    by (auto simp: copy_section_def getContents_def getAddress_def getSize_def
        getAlignment_def getELFType_def getELFFlags_def ucast_u32_u64_u32)
qed

theorem copy_section_fields_witness:
  "SectionNumber patched_section \<le> 5 \<and> (5 :: u64) \<noteq> - 1
   \<and> snd (copy_section elf_context 5 ''.data.copy'' patched_section) = 6
   \<and> SectionNumber (fst (copy_section elf_context 5 ''.data.copy'' patched_section)) = 6
   \<and> SectionNumber patched_section
        < SectionNumber (fst (copy_section elf_context 5 ''.data.copy'' patched_section))
   \<and> Relocations (fst (copy_section elf_context 5 ''.data.copy'' patched_section)) = [reloc_b]
   \<and> PendingRelocations (fst (copy_section elf_context 5 ''.data.copy'' patched_section)) = [reloc_far]
   \<and> DynamicRelocations patched_section = [reloc_a]
   \<and> DynamicRelocations (fst (copy_section elf_context 5 ''.data.copy'' patched_section)) = []
   \<and> Patches (fst (copy_section elf_context 5 ''.data.copy'' patched_section)) = []
   \<and> hasSectionRef input_text_section
   \<and> section_less input_text_section
        (fst (copy_section elf_context 5 ''.data.copy'' patched_section))"
proof -
  let ?c = "copy_section elf_context 5 ''.data.copy'' patched_section"
  have src: "SectionNumber patched_section = 2" "Relocations patched_section = [reloc_b]"
    "PendingRelocations patched_section = [reloc_far]"
    "DynamicRelocations patched_section = [reloc_a]"
    "ELFFlags patched_section = SHF_ALLOC OR SHF_WRITE" "ELFType patched_section = SHT_PROGBITS"
    by (simp_all add: patched_section_def data_section_def example_section_def)
  have le: "SectionNumber patched_section \<le> 5" and nowrap: "(5 :: u64) \<noteq> - 1"
    by (simp_all add: src)
  have c: "?c = (fst ?c, snd ?c)"
    by simp
  note spec = copy_section_fields [OF c]
  have inp: "input_text_section =
      (example_section elf_context ''.text'' SHT_PROGBITS 6 1)
        \<lparr>Section := Some example_ref, Contents := \<lparr>Data = 0x7000, Length = 0x20\<rparr>,
          Address := 0x401000, Size := 0x20, InputFileOffset := 0x1000, Alignment := 16\<rparr>"
    by (simp add: input_text_section_def input_section_def getContentsOrQuit_def example_ref_def
        example_section_def elf_context_def elf_constants)
  have ref: "hasSectionRef input_text_section"
    by (simp add: inp hasSectionRef_def)
  have alloc: "isAllocatable input_text_section = isAllocatable (fst ?c)"
    using spec by (simp add: inp isAllocatable_def isELF_def isTBSS_def isBSS_def isTLS_def
        example_section_def elf_context_def copy_section_def src elf_constants)
  from spec ref alloc have before: "section_less input_text_section (fst ?c)"
    by blast
  from spec le nowrap have greater: "SectionNumber patched_section < SectionNumber (fst ?c)"
    by blast
  from spec have num: "snd ?c = 6" "SectionNumber (fst ?c) = 6"
    by simp_all
  from spec have stores: "Relocations (fst ?c) = [reloc_b]"
    "PendingRelocations (fst ?c) = [reloc_far]"
    "DynamicRelocations (fst ?c) = []" "Patches (fst ?c) = []"
    by (simp_all add: src)
  from le nowrap num greater stores src(4) ref before show ?thesis
    by blast
qed

end
